theory Spec2Isabelle
  imports Complex_Main
begin

section \<open>The host's object model, as the add-on sees it\<close>

text \<open>
  The add-on runs inside a host that owns every object it touches.  The model keeps the
  attributes the add-on reads: text blocks (\<open>bpy.data.texts\<close>), the window tree
  (\<open>bpy.context.window_manager.windows\<close>), the scene of the context and the two
  properties the add-on defines on the scene type.  Python exceptions are values; all
  four classes below are subclasses of \<open>Exception\<close>.
\<close>

datatype exn =
  RuntimeError string | ValueError string | AttributeError string | ReferenceError string

fun str_exn :: "exn \<Rightarrow> string" where
  "str_exn (RuntimeError m) = m"
| "str_exn (ValueError m) = m"
| "str_exn (AttributeError m) = m"
| "str_exn (ReferenceError m) = m"

record Text =
  name :: string
  filepath :: string
  is_modified :: bool

record Region =
  region_type :: string

record Area =
  area_type :: string
  regions :: "Region list"

record Window =
  screen_areas :: "Area list"

text \<open>
  An attribute of the context can be absent (\<open>hasattr\<close> is false), present and
  \<open>None\<close>, or an object.
\<close>

datatype 'a attr = NoAttr | PyNone | Obj 'a

text \<open>
  A property of the scene has two sides: its definition on the type
  \<open>bpy.types.Scene\<close> (present after \<open>bpy.types.Scene.p = FloatProperty(...)\<close>,
  absent after \<open>del bpy.types.Scene.p\<close>) and the value a scene stores for it
  (absent until it is set; a read then gives the definition's default).
\<close>

record FloatProperty =
  float_default :: real
  float_min :: real
  float_max :: real

record BoolProperty =
  bool_default :: bool

record Scene_rna =
  prop_check_interval :: "FloatProperty option"
  prop_run_after_reload :: "BoolProperty option"

record Scene =
  ars_check_interval :: "real option"
  ars_run_after_reload :: "bool option"

text \<open>
  The keyword arguments of \<open>bpy.context.temp_override\<close>; \<open>edit_text\<close> is the
  text block the operators act on, identified by its position in \<open>bpy.data.texts\<close>.
\<close>

record override =
  window :: Window
  area :: Area
  region :: Region
  edit_text :: nat

datatype event = Reload override | RunScript override | Print string

record timer =
  timer_function :: string
  first_interval :: real
  persistent :: bool

record bpy =
  Scene_type :: Scene_rna
  context_scene :: "Scene attr"
  windows :: "Window list"
  texts :: "Text list"
  trace :: "event list"
  registered_classes :: "string list"
  timers :: "timer list"
  TEXT_MT_text :: "string list option"

text \<open>
  What the host and the disk decide, and the add-on cannot see in advance:
  \<open>text_reload h ov = Some msg\<close> when \<open>bpy.ops.text.reload()\<close> under the override
  \<open>ov\<close> raises \<open>RuntimeError(msg)\<close>, and \<open>None\<close> when it succeeds;
  \<open>text_run_script h ov c = (err, c')\<close> when running the script of \<open>ov\<close> in a
  session whose context scene is \<open>c\<close> leaves that scene as \<open>c'\<close> and raises
  \<open>RuntimeError(msg)\<close> if \<open>err = Some msg\<close>.  The callback of the next sections
  takes every text block to stay valid while it is processed; the section on removed
  text blocks drops that assumption for the block a script is run from.  What an
  executed script does to other text blocks and to the window tree is outside the model.
\<close>

record host =
  text_reload :: "override \<Rightarrow> string option"
  text_run_script :: "override \<Rightarrow> Scene attr \<Rightarrow> string option \<times> Scene attr"

section \<open>Constants and string helpers\<close>

definition DEFAULT_CHECK_INTERVAL :: real where
  "DEFAULT_CHECK_INTERVAL = 1 / 2"

definition PROP_INTERVAL :: string where
  "PROP_INTERVAL = ''ars_check_interval''"

definition PROP_RUN_SCRIPT :: string where
  "PROP_RUN_SCRIPT = ''ars_run_after_reload''"

definition lower_char :: "char \<Rightarrow> char" where
  "lower_char c =
     (let n = (of_char c :: nat) in if 65 \<le> n \<and> n \<le> 90 then char_of (n + 32) else c)"

definition lower :: "string \<Rightarrow> string" where
  "lower s = map lower_char s"

definition endswith :: "string \<Rightarrow> string \<Rightarrow> bool" where
  "endswith s suf = (length suf \<le> length s \<and> drop (length s - length suf) s = suf)"

definition print :: "string \<Rightarrow> bpy \<Rightarrow> bpy" where
  "print msg s = s\<lparr>trace := trace s @ [Print msg]\<rparr>"

section \<open>Reading the configuration\<close>

text \<open>
  \<open>getattr(scene, PROP_INTERVAL, dflt)\<close> and \<open>getattr(scene, PROP_RUN_SCRIPT, dflt)\<close>:
  the fallback is returned when the scene type has no such property.
\<close>

definition getattr_interval :: "Scene_rna \<Rightarrow> Scene \<Rightarrow> real \<Rightarrow> real" where
  "getattr_interval rna sc dflt =
     (case prop_check_interval rna of
        None \<Rightarrow> dflt
      | Some p \<Rightarrow> (case ars_check_interval sc of None \<Rightarrow> float_default p | Some v \<Rightarrow> v))"

definition getattr_run_script :: "Scene_rna \<Rightarrow> Scene \<Rightarrow> bool \<Rightarrow> bool" where
  "getattr_run_script rna sc dflt =
     (case prop_run_after_reload rna of
        None \<Rightarrow> dflt
      | Some p \<Rightarrow> (case ars_run_after_reload sc of None \<Rightarrow> bool_default p | Some v \<Rightarrow> v))"

text \<open>Lines 43--46 of the timer: the interval of this cycle.\<close>

definition interval_prop :: "bpy \<Rightarrow> real" where
  "interval_prop s =
     (case context_scene s of
        Obj sc \<Rightarrow> getattr_interval (Scene_type s) sc DEFAULT_CHECK_INTERVAL
      | _ \<Rightarrow> DEFAULT_CHECK_INTERVAL)"

text \<open>Lines 69--70 of the timer: whether to run the script just reloaded.\<close>

definition run_after_reload :: "bpy \<Rightarrow> bool" where
  "run_after_reload s =
     (case context_scene s of
        Obj sc \<Rightarrow> getattr_run_script (Scene_type s) sc False
      | _ \<Rightarrow> False)"

section \<open>Locating a visible text editor\<close>

definition find_window_region :: "Region list \<Rightarrow> Region option" where
  "find_window_region rs = List.find (\<lambda>r. region_type r = ''WINDOW'') rs"

fun find_in_areas :: "Area list \<Rightarrow> (Area \<times> Region) option" where
  "find_in_areas [] = None"
| "find_in_areas (a # as) =
     (if area_type a = ''TEXT_EDITOR''
      then (case find_window_region (regions a) of
              Some r \<Rightarrow> Some (a, r)
            | None \<Rightarrow> find_in_areas as)
      else find_in_areas as)"

fun find_text_editor :: "Window list \<Rightarrow> (Window \<times> Area \<times> Region) option" where
  "find_text_editor [] = None"
| "find_text_editor (w # ws) =
     (case find_in_areas (screen_areas w) of
        Some (a, r) \<Rightarrow> Some (w, a, r)
      | None \<Rightarrow> find_text_editor ws)"

section \<open>The host's operators\<close>

text \<open>
  Both operators are recorded in the trace when they are invoked, whether they succeed
  or raise.  A successful reload replaces the buffer by the file and clears the
  block's modified flag; a failed one leaves the block as it was.
\<close>

definition ops_text_reload :: "host \<Rightarrow> override \<Rightarrow> bpy \<Rightarrow> exn option \<times> bpy" where
  "ops_text_reload h ov s =
     (let s1 = s\<lparr>trace := trace s @ [Reload ov]\<rparr> in
      case text_reload h ov of
        Some msg \<Rightarrow> (Some (RuntimeError msg), s1)
      | None \<Rightarrow>
          (None, s1\<lparr>texts := (texts s1)[edit_text ov :=
                                 (texts s1 ! edit_text ov)\<lparr>is_modified := False\<rparr>]\<rparr>))"

definition ops_text_run_script :: "host \<Rightarrow> override \<Rightarrow> bpy \<Rightarrow> exn option \<times> bpy" where
  "ops_text_run_script h ov s =
     (let s1 = s\<lparr>trace := trace s @ [RunScript ov]\<rparr>;
          (err, c) = text_run_script h ov (context_scene s1);
          s2 = s1\<lparr>context_scene := c\<rparr>
      in (map_option RuntimeError err, s2))"

section \<open>The timer callback\<close>

text \<open>
  The condition of line 57 on one text block.
\<close>

definition qualifies :: "Text \<Rightarrow> bool" where
  "qualifies t = (filepath t \<noteq> [] \<and> endswith (lower (filepath t)) ''.py'' \<and> is_modified t)"

text \<open>
  Lines 59--77, the body of the outer \<open>try\<close>: reload, then the optional run in its own
  \<open>try\<close>, then the message.  The result says whether an exception leaves the block.
\<close>

definition reload_and_run :: "host \<Rightarrow> override \<Rightarrow> bpy \<Rightarrow> exn option \<times> bpy" where
  "reload_and_run h ov s =
     (case ops_text_reload h ov s of
        (Some e, s1) \<Rightarrow> (Some e, s1)
      | (None, s1) \<Rightarrow>
          (let nm = name (texts s1 ! edit_text ov);
               s2 = (if run_after_reload s1
                     then (case ops_text_run_script h ov s1 of
                             (None, s') \<Rightarrow> print (''AutoReloadScripts: executed '' @ nm) s'
                           | (Some exc_run, s') \<Rightarrow>
                               print (''AutoReloadScripts: failed to execute '' @ nm @ '': ''
                                        @ str_exn exc_run) s')
                     else s1)
           in (None, print (''AutoReloadScripts: reloaded '' @ nm) s2)))"

text \<open>Lines 56--79, one iteration of the loop over \<open>bpy.data.texts\<close>.\<close>

definition make_override :: "Window \<times> Area \<times> Region \<Rightarrow> nat \<Rightarrow> override" where
  "make_override editor_ctx i =
     (case editor_ctx of (w, a, r) \<Rightarrow> \<lparr>window = w, area = a, region = r, edit_text = i\<rparr>)"

definition process_text :: "host \<Rightarrow> Window \<times> Area \<times> Region \<Rightarrow> nat \<Rightarrow> bpy \<Rightarrow> bpy" where
  "process_text h editor_ctx i s =
     (if qualifies (texts s ! i)
      then (case reload_and_run h (make_override editor_ctx i) s of
              (None, s') \<Rightarrow> s'
            | (Some exc, s') \<Rightarrow>
                print (''AutoReloadScripts: failed to reload '' @ name (texts s' ! i) @ '': ''
                         @ str_exn exc) s')
      else s)"

fun for_texts :: "host \<Rightarrow> Window \<times> Area \<times> Region \<Rightarrow> nat list \<Rightarrow> bpy \<Rightarrow> bpy" where
  "for_texts h editor_ctx [] s = s"
| "for_texts h editor_ctx (i # js) s = for_texts h editor_ctx js (process_text h editor_ctx i s)"

definition auto_reload_scripts_timer :: "host \<Rightarrow> bpy \<Rightarrow> (exn + real) \<times> bpy" where
  "auto_reload_scripts_timer h s =
     (let interval = interval_prop s in
      case find_text_editor (windows s) of
        None \<Rightarrow> (Inr interval, s)
      | Some editor_ctx \<Rightarrow>
          (Inr interval, for_texts h editor_ctx [0..<length (texts s)] s))"

section \<open>The timer callback when a script removes its own text block\<close>

text \<open>
  A script can remove the text block it is run from (\<open>bpy.data.texts.remove\<close>).  The
  loop variable \<open>text\<close> then refers to a removed block, and every later read of
  \<open>text.name\<close> raises \<open>ReferenceError\<close>.  The callback reads \<open>text.name\<close> in its
  messages: at lines 73 and 77 inside a \<open>try\<close>, and at lines 75 and 79 inside the
  handlers.  This section writes the same lines with that read as an operation that can
  raise.  \<open>removes ov\<close> says that the script run under the override \<open>ov\<close> removes its
  text block.  A frame is the session together with the validity of the loop variable.
  The reads of the window tree (lines 34--39), of \<open>bpy.data.texts\<close> (line 55) and of
  the path and the flag of a block that the enumeration has just produced (line 57) are
  taken to succeed, as before.
\<close>

record frame =
  session :: bpy
  text_valid :: bool









section \<open>Reading the trace\<close>

text \<open>
  The text blocks the reload operator, and the run operator, were invoked on, in the
  order of the invocations.
\<close>

fun reload_targets :: "event list \<Rightarrow> nat list" where
  "reload_targets [] = []"
| "reload_targets (Reload ov # es) = edit_text ov # reload_targets es"
| "reload_targets (e # es) = reload_targets es"

fun run_script_targets :: "event list \<Rightarrow> nat list" where
  "run_script_targets [] = []"
| "run_script_targets (RunScript ov # es) = edit_text ov # run_script_targets es"
| "run_script_targets (e # es) = run_script_targets es"

section \<open>Registration\<close>

text \<open>
  The host's registries.  \<open>bpy.utils.register_class\<close> raises \<open>ValueError\<close> for a
  class that is already registered, \<open>bpy.utils.unregister_class\<close> raises
  \<open>RuntimeError\<close> for a class that is not registered,
  \<open>bpy.app.timers.register\<close> adds an entry, \<open>bpy.app.timers.unregister\<close> removes
  the first entry of the function and raises \<open>ValueError\<close> when there is none, and
  removing a draw function that a menu does not hold raises \<open>ValueError\<close>.
\<close>

definition ARS_PT_ReloadPanel :: string where
  "ARS_PT_ReloadPanel = ''ARS_PT_ReloadPanel''"

definition classes_to_register :: "string list" where
  "classes_to_register = [ARS_PT_ReloadPanel]"

definition ars_text_menu :: string where
  "ars_text_menu = ''ars_text_menu''"

definition timer_callback :: string where
  "timer_callback = ''auto_reload_scripts_timer''"

definition register_class :: "string \<Rightarrow> bpy \<Rightarrow> exn + bpy" where
  "register_class cls s =
     (if cls \<in> set (registered_classes s)
      then Inl (ValueError ''register_class(...): already registered as a subclass'')
      else Inr (s\<lparr>registered_classes := registered_classes s @ [cls]\<rparr>))"

definition unregister_class :: "string \<Rightarrow> bpy \<Rightarrow> exn + bpy" where
  "unregister_class cls s =
     (if cls \<in> set (registered_classes s)
      then Inr (s\<lparr>registered_classes := removeAll cls (registered_classes s)\<rparr>)
      else Inl (RuntimeError ''unregister_class(...): missing bl_rna attribute (may not be registered)''))"

fun register_classes :: "string list \<Rightarrow> bpy \<Rightarrow> exn + bpy" where
  "register_classes [] s = Inr s"
| "register_classes (cls # cs) s =
     (case register_class cls s of Inl e \<Rightarrow> Inl e | Inr s' \<Rightarrow> register_classes cs s')"

fun unregister_classes :: "string list \<Rightarrow> bpy \<Rightarrow> exn + bpy" where
  "unregister_classes [] s = Inr s"
| "unregister_classes (cls # cs) s =
     (case unregister_class cls s of Inl e \<Rightarrow> Inl e | Inr s' \<Rightarrow> unregister_classes cs s')"

definition timers_register :: "string \<Rightarrow> real \<Rightarrow> bool \<Rightarrow> bpy \<Rightarrow> bpy" where
  "timers_register f first p s =
     s\<lparr>timers := timers s @ [\<lparr>timer_function = f, first_interval = first, persistent = p\<rparr>]\<rparr>"

fun remove_timer :: "string \<Rightarrow> timer list \<Rightarrow> timer list" where
  "remove_timer f [] = []"
| "remove_timer f (t # ts) = (if timer_function t = f then ts else t # remove_timer f ts)"

definition is_registered :: "string \<Rightarrow> bpy \<Rightarrow> bool" where
  "is_registered f s = (f \<in> set (map timer_function (timers s)))"

definition timers_unregister :: "string \<Rightarrow> bpy \<Rightarrow> exn + bpy" where
  "timers_unregister f s =
     (if is_registered f s
      then Inr (s\<lparr>timers := remove_timer f (timers s)\<rparr>)
      else Inl (ValueError ''Error: function is not registered''))"

definition menu_remove :: "string \<Rightarrow> string list \<Rightarrow> exn + string list" where
  "menu_remove f fs =
     (if f \<in> set fs then Inr (remove1 f fs) else Inl (ValueError ''list.remove(x): x not in list''))"

text \<open>Lines 88--130.\<close>

definition register :: "bpy \<Rightarrow> exn + bpy" where
  "register s =
     (case register_classes [ARS_PT_ReloadPanel] s of
        Inl e \<Rightarrow> Inl e
      | Inr s1 \<Rightarrow>
          (let s2 = (if prop_check_interval (Scene_type s1) = None
                     then s1\<lparr>Scene_type := (Scene_type s1)\<lparr>prop_check_interval :=
                            Some \<lparr>float_default = DEFAULT_CHECK_INTERVAL,
                                  float_min = 1 / 10, float_max = 60\<rparr>\<rparr>\<rparr>
                     else s1);
               first = (case context_scene s2 of
                          Obj sc \<Rightarrow> getattr_interval (Scene_type s2) sc DEFAULT_CHECK_INTERVAL
                        | _ \<Rightarrow> DEFAULT_CHECK_INTERVAL);
               s3 = timers_register timer_callback first True s2
           in case TEXT_MT_text s3 of
                None \<Rightarrow> Inl (AttributeError ''TEXT_MT_text'')
              | Some fs \<Rightarrow>
                  (let s4 = s3\<lparr>TEXT_MT_text := Some (fs @ [ars_text_menu])\<rparr>;
                       s5 = (if prop_run_after_reload (Scene_type s4) = None
                             then s4\<lparr>Scene_type := (Scene_type s4)\<lparr>prop_run_after_reload :=
                                    Some \<lparr>bool_default = False\<rparr>\<rparr>\<rparr>
                             else s4)
                   in Inr s5)))"

text \<open>
  Lines 133--157.  Each \<open>except ValueError: pass\<close> catches that class only; any other
  exception, and any exception raised outside a \<open>try\<close>, leaves the function.
\<close>

definition unregister :: "bpy \<Rightarrow> exn + bpy" where
  "unregister s =
     (case (case timers_unregister timer_callback s of
              Inl (ValueError m) \<Rightarrow> Inr s
            | Inl e \<Rightarrow> Inl e
            | Inr s' \<Rightarrow> Inr s') of
        Inl e \<Rightarrow> Inl e
      | Inr s1 \<Rightarrow>
          (let s2 = (if prop_check_interval (Scene_type s1) \<noteq> None
                     then s1\<lparr>Scene_type := (Scene_type s1)\<lparr>prop_check_interval := None\<rparr>\<rparr>
                     else s1);
               s3 = (if prop_run_after_reload (Scene_type s2) \<noteq> None
                     then s2\<lparr>Scene_type := (Scene_type s2)\<lparr>prop_run_after_reload := None\<rparr>\<rparr>
                     else s2)
           in case unregister_classes (rev classes_to_register) s3 of
                Inl e \<Rightarrow> Inl e
              | Inr s4 \<Rightarrow>
                  (case TEXT_MT_text s4 of
                     None \<Rightarrow> Inr s4
                   | Some fs \<Rightarrow>
                       (case menu_remove ars_text_menu fs of
                          Inl (ValueError m) \<Rightarrow> Inr s4
                        | Inl e \<Rightarrow> Inl e
                        | Inr fs' \<Rightarrow> Inr (s4\<lparr>TEXT_MT_text := Some fs'\<rparr>)))))"

section \<open>Concrete sessions\<close>

text \<open>
  Small sessions on which the statements below are evaluated: a window with a 3D view
  and a text editor, a session with both properties defined and set, text blocks named
  after their files, and hosts whose reloads all succeed, whose reload of the first
  text block fails, and whose executed scripts switch the run flag off.
\<close>

definition editor_window :: Window where
  "editor_window =
     \<lparr>screen_areas =
        [\<lparr>area_type = ''VIEW_3D'', regions = [\<lparr>region_type = ''WINDOW''\<rparr>]\<rparr>,
         \<lparr>area_type = ''TEXT_EDITOR'',
          regions = [\<lparr>region_type = ''HEADER''\<rparr>, \<lparr>region_type = ''WINDOW''\<rparr>]\<rparr>]\<rparr>"

definition viewport_window :: Window where
  "viewport_window =
     \<lparr>screen_areas = [\<lparr>area_type = ''VIEW_3D'', regions = [\<lparr>region_type = ''WINDOW''\<rparr>]\<rparr>]\<rparr>"


definition doc :: "string \<Rightarrow> bool \<Rightarrow> Text" where
  "doc nm m = \<lparr>name = nm, filepath = ''/scripts/'' @ nm, is_modified = m\<rparr>"

definition session :: "real \<Rightarrow> bool \<Rightarrow> Window list \<Rightarrow> Text list \<Rightarrow> bpy" where
  "session iv run ws ts =
     \<lparr>Scene_type =
        \<lparr>prop_check_interval =
           Some \<lparr>float_default = 1 / 2, float_min = 1 / 10, float_max = 60\<rparr>,
         prop_run_after_reload = Some \<lparr>bool_default = False\<rparr>\<rparr>,
      context_scene = Obj \<lparr>ars_check_interval = Some iv, ars_run_after_reload = Some run\<rparr>,
      windows = ws,
      texts = ts,
      trace = [],
      registered_classes = [''ARS_PT_ReloadPanel''],
      timers = [\<lparr>timer_function = ''auto_reload_scripts_timer'', first_interval = 1 / 2,
                 persistent = True\<rparr>],
      TEXT_MT_text = Some [''ars_text_menu'']\<rparr>"

definition never_registered :: bpy where
  "never_registered =
     \<lparr>Scene_type = \<lparr>prop_check_interval = None, prop_run_after_reload = None\<rparr>,
      context_scene = Obj \<lparr>ars_check_interval = None, ars_run_after_reload = None\<rparr>,
      windows = [editor_window],
      texts = [],
      trace = [],
      registered_classes = [],
      timers = [],
      TEXT_MT_text = Some []\<rparr>"

definition reliable_host :: host where
  "reliable_host = \<lparr>text_reload = (\<lambda>ov. None), text_run_script = (\<lambda>ov c. (None, c))\<rparr>"

definition first_reload_fails :: host where
  "first_reload_fails =
     \<lparr>text_reload = (\<lambda>ov. if edit_text ov = 0 then Some ''Could not reopen file'' else None),
      text_run_script = (\<lambda>ov c. (None, c))\<rparr>"


definition mixed_session :: bpy where
  "mixed_session =
     session (1 / 2) False [editor_window]
       [doc ''a.py'' True, doc ''b.txt'' True, doc ''c.py'' False]"


definition hidden_editor_session :: bpy where
  "hidden_editor_session = session 1 True [viewport_window] [doc ''a.py'' True]"

section \<open>Facts about one iteration and about the loop\<close>

lemma edit_text_make_override [simp]: "edit_text (make_override ed i) = i"
  by (cases ed) (simp add: make_override_def)

lemma reload_targets_append [simp]:
  "reload_targets (xs @ ys) = reload_targets xs @ reload_targets ys"
  by (induction xs rule: reload_targets.induct) simp_all

lemma run_script_targets_append [simp]:
  "run_script_targets (xs @ ys) = run_script_targets xs @ run_script_targets ys"
  by (induction xs rule: run_script_targets.induct) simp_all

lemma process_text_skip: "\<not> qualifies (texts s ! i) \<Longrightarrow> process_text h ed i s = s"
  by (simp add: process_text_def)


lemma texts_process_text:
  "texts (process_text h ed i s) =
     (if qualifies (texts s ! i) \<and> text_reload h (make_override ed i) = None
      then (texts s)[i := (texts s ! i)\<lparr>is_modified := False\<rparr>] else texts s)"
  by (auto simp: process_text_def reload_and_run_def ops_text_reload_def ops_text_run_script_def
      print_def Let_def split: option.splits prod.splits)

lemma run_after_reload_cong:
  "context_scene s' = context_scene s \<Longrightarrow> Scene_type s' = Scene_type s \<Longrightarrow>
   run_after_reload s' = run_after_reload s"
  by (simp add: run_after_reload_def split: attr.splits)

lemma run_after_reload_update [simp]:
  "run_after_reload (s\<lparr>trace := tr\<rparr>) = run_after_reload s"
  "run_after_reload (s\<lparr>texts := ts\<rparr>) = run_after_reload s"
  by (simp_all add: run_after_reload_def split: attr.splits)

lemma reload_targets_process_text:
  "reload_targets (trace (process_text h ed i s)) =
     reload_targets (trace s) @ (if qualifies (texts s ! i) then [i] else [])"
  by (auto simp: process_text_def reload_and_run_def ops_text_reload_def ops_text_run_script_def
      print_def Let_def split: option.splits prod.splits)

lemma run_script_targets_process_text:
  "run_script_targets (trace (process_text h ed i s)) =
     run_script_targets (trace s) @
       (if qualifies (texts s ! i) \<and> text_reload h (make_override ed i) = None \<and> run_after_reload s
        then [i] else [])"
  by (auto simp: process_text_def reload_and_run_def ops_text_reload_def ops_text_run_script_def
      print_def Let_def split: option.splits prod.splits)

lemma Scene_type_process_text [simp]: "Scene_type (process_text h ed i s) = Scene_type s"
  by (auto simp: process_text_def reload_and_run_def ops_text_reload_def ops_text_run_script_def
      print_def Let_def split: option.splits prod.splits)

lemma context_scene_process_text:
  "context_scene (process_text h ed i s) =
     (if qualifies (texts s ! i) \<and> text_reload h (make_override ed i) = None \<and> run_after_reload s
      then snd (text_run_script h (make_override ed i) (context_scene s)) else context_scene s)"
  by (auto simp: process_text_def reload_and_run_def ops_text_reload_def ops_text_run_script_def
      print_def Let_def split: option.splits prod.splits)




lemma texts_process_text_other: "i \<noteq> j \<Longrightarrow> texts (process_text h ed j s) ! i = texts s ! i"
  by (simp add: texts_process_text)


lemma length_texts_for_texts [simp]: "length (texts (for_texts h ed js s)) = length (texts s)"
  by (induction js arbitrary: s) (auto simp: texts_process_text)

lemma reload_targets_for_texts:
  "distinct js \<Longrightarrow>
   reload_targets (trace (for_texts h ed js s)) =
     reload_targets (trace s) @ filter (\<lambda>i. qualifies (texts s ! i)) js"
proof (induction js arbitrary: s)
  case Nil
  then show ?case by simp
next
  case (Cons i js)
  have same: "filter (\<lambda>j. qualifies (texts (process_text h ed i s) ! j)) js =
      filter (\<lambda>j. qualifies (texts s ! j)) js"
  proof (rule filter_cong [OF refl])
    fix j assume "j \<in> set js"
    with Cons.prems have "j \<noteq> i" by auto
    then show "qualifies (texts (process_text h ed i s) ! j) = qualifies (texts s ! j)"
      by (simp add: texts_process_text_other)
  qed
  from Cons.prems have "distinct js" by simp
  then show ?case
    by (simp add: Cons.IH same reload_targets_process_text)
qed

lemma count_list_filter: "count_list (filter P xs) x = (if P x then count_list xs x else 0)"
  by (induction xs) auto



lemma no_run_process_text:
  assumes "\<not> run_after_reload s"
  shows "\<not> run_after_reload (process_text h ed i s)"
    and "run_script_targets (trace (process_text h ed i s)) = run_script_targets (trace s)"
proof -
  have "context_scene (process_text h ed i s) = context_scene s"
    using assms by (simp add: context_scene_process_text)
  then have "run_after_reload (process_text h ed i s) = run_after_reload s"
    by (rule run_after_reload_cong) simp
  with assms show "\<not> run_after_reload (process_text h ed i s)" by simp
  show "run_script_targets (trace (process_text h ed i s)) = run_script_targets (trace s)"
    using assms by (simp add: run_script_targets_process_text)
qed

lemma no_run_for_texts:
  "\<not> run_after_reload s \<Longrightarrow>
   run_script_targets (trace (for_texts h ed js s)) = run_script_targets (trace s)"
  by (induction js arbitrary: s) (simp_all add: no_run_process_text)




lemma timer_loop:
  assumes "find_text_editor (windows s) = Some ed"
  shows "snd (auto_reload_scripts_timer h s) = for_texts h ed [0..<length (texts s)] s"
  using assms by (simp add: auto_reload_scripts_timer_def)



lemma find_window_region_None:
  "find_window_region rs = None \<longleftrightarrow> (\<forall>r\<in>set rs. region_type r \<noteq> ''WINDOW'')"
  by (auto simp: find_window_region_def find_None_iff)

lemma find_in_areas_Cons_None:
  "find_in_areas (a # as) = None \<longleftrightarrow>
     (area_type a = ''TEXT_EDITOR'' \<longrightarrow> find_window_region (regions a) = None)
     \<and> find_in_areas as = None"
  by (simp split: option.splits)

lemma find_in_areas_None:
  "find_in_areas as = None \<longleftrightarrow>
     (\<forall>a\<in>set as. area_type a = ''TEXT_EDITOR'' \<longrightarrow> (\<forall>r\<in>set (regions a). region_type r \<noteq> ''WINDOW''))"
proof (induction as)
  case Nil
  show ?case by simp
next
  case (Cons a as)
  show ?case
    unfolding find_in_areas_Cons_None Cons.IH find_window_region_None by simp
qed

lemma find_text_editor_Cons_None:
  "find_text_editor (w # ws) = None \<longleftrightarrow>
     find_in_areas (screen_areas w) = None \<and> find_text_editor ws = None"
  by (simp split: option.splits)

lemma find_text_editor_None:
  "find_text_editor ws = None \<longleftrightarrow>
     (\<forall>w\<in>set ws. \<forall>a\<in>set (screen_areas w).
        area_type a = ''TEXT_EDITOR'' \<longrightarrow> (\<forall>r\<in>set (regions a). region_type r \<noteq> ''WINDOW''))"
proof (induction ws)
  case Nil
  show ?case by simp
next
  case (Cons w ws)
  show ?case
    unfolding find_text_editor_Cons_None Cons.IH find_in_areas_None by simp
qed


section \<open>Facts about the callback with removed text blocks\<close>




section \<open>Facts about registration\<close>

lemma count_remove1_snoc: "count_list (remove1 x (xs @ [x])) y = count_list xs y"
  by (induction xs) auto

lemma map_timer_function_remove_timer:
  "map timer_function (remove_timer f ts) = remove1 f (map timer_function ts)"
  by (induction ts) auto

lemma register_Inr:
  assumes "register s = Inr s1"
  shows "ARS_PT_ReloadPanel \<notin> set (registered_classes s)"
    and "registered_classes s1 = registered_classes s @ [ARS_PT_ReloadPanel]"
    and "\<exists>fs. TEXT_MT_text s = Some fs \<and> TEXT_MT_text s1 = Some (fs @ [ars_text_menu])"
    and "map timer_function (timers s1) = map timer_function (timers s) @ [timer_callback]"
    and "context_scene s1 = context_scene s"
  using assms
  by (auto simp: register_def register_class_def timers_register_def Let_def
      split: sum.splits option.splits if_splits)

lemma unregister_registered:
  assumes "ARS_PT_ReloadPanel \<in> set (registered_classes s)"
  shows "\<exists>s2. unregister s = Inr s2
     \<and> prop_check_interval (Scene_type s2) = None
     \<and> prop_run_after_reload (Scene_type s2) = None
     \<and> registered_classes s2 = removeAll ARS_PT_ReloadPanel (registered_classes s)
     \<and> map timer_function (timers s2) = remove1 timer_callback (map timer_function (timers s))
     \<and> TEXT_MT_text s2 = map_option (remove1 ars_text_menu) (TEXT_MT_text s)
     \<and> context_scene s2 = context_scene s"
  using assms
  by (auto simp: unregister_def timers_unregister_def is_registered_def unregister_class_def
      classes_to_register_def menu_remove_def Let_def map_timer_function_remove_timer
      remove1_idem
      split: sum.splits option.splits exn.splits)

section \<open>The timer callback: what every cycle guarantees\<close>




text \<open>
  C2.  A text block without a file path, or whose lowercased path does not end in
  \<open>.py\<close>, or whose modified flag is off, is not reloaded: the cycle adds no reload of
  that block to the trace.
\<close>

theorem no_reload_unless_qualified:
  assumes "i < length (texts s)"
    and "filepath (texts s ! i) = [] \<or> \<not> endswith (lower (filepath (texts s ! i))) ''.py''
         \<or> \<not> is_modified (texts s ! i)"
  shows "count_list (reload_targets (trace (snd (auto_reload_scripts_timer h s)))) i =
         count_list (reload_targets (trace s)) i"
proof (cases "find_text_editor (windows s)")
  case None
  then show ?thesis by (simp add: auto_reload_scripts_timer_def)
next
  case (Some ed)
  from assms(2) have "\<not> qualifies (texts s ! i)" by (auto simp: qualifies_def)
  then show ?thesis
    by (simp add: timer_loop [OF Some] reload_targets_for_texts count_list_filter)
qed

theorem no_reload_unless_qualified_witness:
  "1 < length (texts mixed_session)
   \<and> \<not> endswith (lower (filepath (texts mixed_session ! 1))) ''.py''
   \<and> count_list (reload_targets
         (trace (snd (auto_reload_scripts_timer reliable_host mixed_session)))) 1 =
       count_list (reload_targets (trace mixed_session)) 1
   \<and> reload_targets (trace (snd (auto_reload_scripts_timer reliable_host mixed_session))) = [0]"
proof -
  have h1: "1 < length (texts mixed_session)" by code_simp
  have h2: "\<not> endswith (lower (filepath (texts mixed_session ! 1))) ''.py''" by code_simp
  then have h2': "filepath (texts mixed_session ! 1) = []
      \<or> \<not> endswith (lower (filepath (texts mixed_session ! 1))) ''.py''
      \<or> \<not> is_modified (texts mixed_session ! 1)" by simp
  have e: "reload_targets (trace (snd (auto_reload_scripts_timer reliable_host mixed_session))) = [0]"
    by code_simp
  from no_reload_unless_qualified [OF h1 h2', of reliable_host] h1 h2 e show ?thesis
    by (intro conjI)
qed









text \<open>
  C6.  When the run flag is off (the property is off, or no scene or no such property is
  reachable), the cycle invokes the run operator on no text block, whatever is reloaded
  and whether the reloads succeed or raise.
\<close>

theorem never_run_when_flag_off:
  assumes "\<not> run_after_reload s"
  shows "run_script_targets (trace (snd (auto_reload_scripts_timer h s))) =
         run_script_targets (trace s)"
proof (cases "find_text_editor (windows s)")
  case None
  then show ?thesis by (simp add: auto_reload_scripts_timer_def)
next
  case (Some ed)
  with assms show ?thesis by (simp add: timer_loop no_run_for_texts)
qed

theorem never_run_when_flag_off_witness:
  "\<not> run_after_reload mixed_session
   \<and> run_script_targets (trace (snd (auto_reload_scripts_timer first_reload_fails mixed_session))) =
       run_script_targets (trace mixed_session)
   \<and> run_script_targets (trace mixed_session) = []"
proof -
  have h1: "\<not> run_after_reload mixed_session" by code_simp
  have e: "run_script_targets (trace mixed_session) = []" by code_simp
  from never_run_when_flag_off [OF h1, of first_reload_fails] h1 e show ?thesis
    by (intro conjI)
qed

text \<open>
  C7.  When no window shows a text editor area that has a content region, the cycle
  leaves the session as it found it (no reload, no run, nothing printed) and returns the
  interval of this cycle.
\<close>

theorem no_editor_skips_cycle:
  assumes "\<forall>w\<in>set (windows s). \<forall>a\<in>set (screen_areas w).
             area_type a = ''TEXT_EDITOR'' \<longrightarrow> (\<forall>r\<in>set (regions a). region_type r \<noteq> ''WINDOW'')"
  shows "auto_reload_scripts_timer h s = (Inr (interval_prop s), s)"
proof -
  from assms have "find_text_editor (windows s) = None" by (simp only: find_text_editor_None)
  then show ?thesis by (simp add: auto_reload_scripts_timer_def)
qed

theorem no_editor_skips_cycle_witness:
  "find_text_editor (windows hidden_editor_session) = None
   \<and> auto_reload_scripts_timer reliable_host hidden_editor_session =
       (Inr (interval_prop hidden_editor_session), hidden_editor_session)
   \<and> interval_prop hidden_editor_session = 1"
proof -
  have n: "find_text_editor (windows hidden_editor_session) = None" by code_simp
  then have h: "\<forall>w\<in>set (windows hidden_editor_session). \<forall>a\<in>set (screen_areas w).
      area_type a = ''TEXT_EDITOR'' \<longrightarrow> (\<forall>r\<in>set (regions a). region_type r \<noteq> ''WINDOW'')"
    by (simp only: find_text_editor_None)
  have i: "interval_prop hidden_editor_session = 1"
    by (simp add: hidden_editor_session_def session_def interval_prop_def getattr_interval_def)
  from no_editor_skips_cycle [OF h, of reliable_host] n i show ?thesis
    by (intro conjI)
qed




section \<open>Registration: what unregistering does\<close>

text \<open>
  C9.  The claim asks that \<open>unregister\<close> never raises, also when nothing is registered.
  The timer, the two properties and the menu entry are guarded; the call of
  \<open>unregister_class\<close> is not.  In a session where the add-on was never registered, and
  in the session left by a first \<open>unregister\<close>, the call raises \<open>RuntimeError\<close> and the
  exception leaves \<open>unregister\<close>.
\<close>

theorem unregister_unregistered_class:
  "unregister never_registered =
     Inl (RuntimeError ''unregister_class(...): missing bl_rna attribute (may not be registered)'')
   \<and> (\<exists>s1 s2. register never_registered = Inr s1 \<and> unregister s1 = Inr s2
        \<and> unregister s2 =
            Inl (RuntimeError ''unregister_class(...): missing bl_rna attribute (may not be registered)''))"
  by (simp add: never_registered_def unregister_def register_def timers_unregister_def
      is_registered_def unregister_class_def register_class_def classes_to_register_def
      menu_remove_def timers_register_def Let_def ARS_PT_ReloadPanel_def ars_text_menu_def
      timer_callback_def)

text \<open>
  C10.  After a successful \<open>register\<close>, \<open>unregister\<close> succeeds and deletes both
  property definitions from the scene type; the panel class is no longer registered, the
  timer entry and the menu entry that \<open>register\<close> added are gone (the callback and the
  draw function are registered as often as before \<open>register\<close>), and a read of the
  interval or of the run flag gives the fixed defaults, half a second and off.
\<close>

theorem unregister_after_register:
  assumes "register s = Inr s1"
  shows "\<exists>s2. unregister s1 = Inr s2
     \<and> prop_check_interval (Scene_type s2) = None
     \<and> prop_run_after_reload (Scene_type s2) = None
     \<and> registered_classes s2 = registered_classes s
     \<and> ARS_PT_ReloadPanel \<notin> set (registered_classes s2)
     \<and> count_list (map timer_function (timers s2)) timer_callback =
         count_list (map timer_function (timers s)) timer_callback
     \<and> is_registered timer_callback s2 = is_registered timer_callback s
     \<and> (\<exists>fs fs'. TEXT_MT_text s = Some fs \<and> TEXT_MT_text s2 = Some fs'
           \<and> count_list fs' ars_text_menu = count_list fs ars_text_menu)
     \<and> interval_prop s2 = 1 / 2
     \<and> \<not> run_after_reload s2"
proof -
  note r = register_Inr [OF assms]
  from r(2) have "ARS_PT_ReloadPanel \<in> set (registered_classes s1)" by simp
  from unregister_registered [OF this] obtain s2 where u: "unregister s1 = Inr s2"
    and p1: "prop_check_interval (Scene_type s2) = None"
    and p2: "prop_run_after_reload (Scene_type s2) = None"
    and c: "registered_classes s2 = removeAll ARS_PT_ReloadPanel (registered_classes s1)"
    and t: "map timer_function (timers s2) = remove1 timer_callback (map timer_function (timers s1))"
    and m: "TEXT_MT_text s2 = map_option (remove1 ars_text_menu) (TEXT_MT_text s1)"
    by blast
  from r(3) obtain fs where fs: "TEXT_MT_text s = Some fs"
    "TEXT_MT_text s1 = Some (fs @ [ars_text_menu])" by blast
  have c': "registered_classes s2 = registered_classes s"
    using c r(1,2) by simp
  have t': "count_list (map timer_function (timers s2)) y =
      count_list (map timer_function (timers s)) y" for y
    unfolding t r(4) by (rule count_remove1_snoc)
  have t'': "is_registered timer_callback s2 = is_registered timer_callback s"
  proof -
    have "is_registered timer_callback s2 =
        (count_list (map timer_function (timers s2)) timer_callback \<noteq> 0)"
      unfolding is_registered_def count_list_0_iff by simp
    also have "\<dots> = (count_list (map timer_function (timers s)) timer_callback \<noteq> 0)"
      by (simp only: t')
    also have "\<dots> = is_registered timer_callback s"
      unfolding is_registered_def count_list_0_iff by simp
    finally show ?thesis .
  qed
  have m': "TEXT_MT_text s2 = Some (remove1 ars_text_menu (fs @ [ars_text_menu]))"
    using m fs by simp
  have i: "interval_prop s2 = 1 / 2"
    using p1 by (simp add: interval_prop_def getattr_interval_def DEFAULT_CHECK_INTERVAL_def
        split: attr.splits)
  have f: "\<not> run_after_reload s2"
    using p2 by (simp add: run_after_reload_def getattr_run_script_def split: attr.splits)
  show ?thesis
    using u p1 p2 c' r(1) t' t'' fs(1) m' i f by (simp add: count_remove1_snoc)
qed

theorem unregister_after_register_witness:
  "\<exists>s1 s2. register never_registered = Inr s1 \<and> unregister s1 = Inr s2
     \<and> prop_check_interval (Scene_type s1) \<noteq> None
     \<and> prop_run_after_reload (Scene_type s1) \<noteq> None
     \<and> is_registered timer_callback s1
     \<and> prop_check_interval (Scene_type s2) = None
     \<and> prop_run_after_reload (Scene_type s2) = None
     \<and> ARS_PT_ReloadPanel \<notin> set (registered_classes s2)
     \<and> \<not> is_registered timer_callback s2
     \<and> interval_prop s2 = 1 / 2
     \<and> \<not> run_after_reload s2"
proof -
  have "case register never_registered of
          Inl e \<Rightarrow> False
        | Inr s1 \<Rightarrow> prop_check_interval (Scene_type s1) \<noteq> None
            \<and> prop_run_after_reload (Scene_type s1) \<noteq> None \<and> is_registered timer_callback s1"
    by code_simp
  then obtain s1 where r: "register never_registered = Inr s1"
    and d: "prop_check_interval (Scene_type s1) \<noteq> None"
      "prop_run_after_reload (Scene_type s1) \<noteq> None" "is_registered timer_callback s1"
    by (auto split: sum.splits)
  have n: "\<not> is_registered timer_callback never_registered" by code_simp
  from unregister_after_register [OF r] obtain s2 where "unregister s1 = Inr s2"
    "prop_check_interval (Scene_type s2) = None" "prop_run_after_reload (Scene_type s2) = None"
    "ARS_PT_ReloadPanel \<notin> set (registered_classes s2)"
    "is_registered timer_callback s2 = is_registered timer_callback never_registered"
    "interval_prop s2 = 1 / 2" "\<not> run_after_reload s2"
    by blast
  with r d n show ?thesis by blast
qed

end
